theory Spec2Isabelle
  imports Main "HOL-Library.Word" "HOL-Library.Monad_Syntax" "HOL-Library.Sublist"
begin

unbundle bit_operations_syntax

chapter \<open>The driver, the frame builder and the reporter\<close>

section \<open>Protocol constants (drivers/mmwave/mmwave\_ld2410.h)\<close>

type_synonym byte = "8 word"

definition LD2410_DATA_HEADER :: "32 word" where "LD2410_DATA_HEADER = 0xF4F3F2F1"
definition LD2410_DATA_TAIL :: "32 word" where "LD2410_DATA_TAIL = 0xF8F7F6F5"
definition LD2410_CMD_HEADER :: "32 word" where "LD2410_CMD_HEADER = 0xFDFCFBFA"
definition LD2410_CMD_TAIL :: "32 word" where "LD2410_CMD_TAIL = 0x04030201"

definition LD2410_MAX_FRAME_LEN :: nat where "LD2410_MAX_FRAME_LEN = 64"
definition LD2410_MAX_GATES :: nat where "LD2410_MAX_GATES = 9"

definition LD2410_CMD_ENABLE_CONFIG :: "16 word" where "LD2410_CMD_ENABLE_CONFIG = 0x00FF"
definition LD2410_CMD_DISABLE_CONFIG :: "16 word" where "LD2410_CMD_DISABLE_CONFIG = 0x00FE"
definition LD2410_CMD_SET_MAXGATE :: "16 word" where "LD2410_CMD_SET_MAXGATE = 0x0060"
definition LD2410_CMD_SET_SENSITIVITY :: "16 word" where "LD2410_CMD_SET_SENSITIVITY = 0x0064"
definition LD2410_CMD_FACTORY_RESET :: "16 word" where "LD2410_CMD_FACTORY_RESET = 0x00A2"
definition LD2410_CMD_RESTART :: "16 word" where "LD2410_CMD_RESTART = 0x00A3"
definition LD2410_CMD_ENG_MODE_ON :: "16 word" where "LD2410_CMD_ENG_MODE_ON = 0x0062"
definition LD2410_CMD_ENG_MODE_OFF :: "16 word" where "LD2410_CMD_ENG_MODE_OFF = 0x0063"

text \<open>The errno values the driver and the reporter return (negated).\<close>

definition OK :: int where "OK = 0"
definition ENOENT :: int where "ENOENT = 2"
definition EIO :: int where "EIO = 5"
definition EAGAIN :: int where "EAGAIN = 11"
definition ENODEV :: int where "ENODEV = 19"
definition EINVAL :: int where "EINVAL = 22"
definition ENOTTY :: int where "ENOTTY = 25"

section \<open>Data model\<close>

record mmwave_data_s =
  target_state :: byte
  motion_distance :: "16 word"
  motion_energy :: byte
  static_distance :: "16 word"
  static_energy :: byte
  detection_distance :: "16 word"
  timestamp_ms :: "32 word"

record mmwave_eng_data_s =
  basic :: mmwave_data_s
  motion_gate_energy :: "byte list"
  static_gate_energy :: "byte list"

record mmwave_sensitivity_s =
  gate :: byte
  motion_threshold :: byte
  static_threshold :: byte

record mmwave_maxgate_s =
  max_motion_gate :: byte
  max_static_gate :: byte
  timeout_s :: "16 word"

datatype parse_state_t = PARSE_HEADER | PARSE_LENGTH | PARSE_PAYLOAD | PARSE_TAIL

text \<open>
  The driver state \<open>struct mmwave_dev_s\<close>. The three semaphores are the counters of
  \<open>sem_t\<close> as tests/stubs/nuttx/semaphore.h declares it; \<open>rxbuf\<close> is the array
  \<open>uint8_t rxbuf[LD2410_MAX_FRAME_LEN]\<close>, a list of 64 bytes.
\<close>

record mmwave_dev_s =
  uart_fd :: int
  baud :: "32 word"
  data :: mmwave_data_s
  eng_data :: mmwave_eng_data_s
  eng_mode :: bool
  data_valid :: bool
  rxbuf :: "byte list"
  rxpos :: byte
  parse_state :: parse_state_t
  frame_len :: "16 word"
  data_sem :: int
  cmd_sem :: int
  wait_sem :: int
  frames_ok :: "32 word"
  frames_err :: "32 word"
  cmd_timeouts :: "32 word"

definition zero_data :: mmwave_data_s where
  "zero_data = \<lparr>target_state = 0, motion_distance = 0, motion_energy = 0,
     static_distance = 0, static_energy = 0, detection_distance = 0, timestamp_ms = 0\<rparr>"

definition zero_eng_data :: mmwave_eng_data_s where
  "zero_eng_data = \<lparr>basic = zero_data,
     motion_gate_energy = [0, 0, 0, 0, 0, 0, 0, 0, 0],
     static_gate_energy = [0, 0, 0, 0, 0, 0, 0, 0, 0]\<rparr>"

text \<open>
  The device as \<open>mmwave_ld2410_register\<close> leaves it before the UART is opened:
  \<open>kmm_zalloc\<close> zeroes the structure, the fields are assigned, and \<open>nxsem_init\<close> sets
  the semaphore counts to 1, 1 and 0. The tests' \<open>reset_parser\<close> builds the same state.
\<close>

definition dev_init :: "32 word \<Rightarrow> mmwave_dev_s" where
  "dev_init bd = \<lparr>uart_fd = -1, baud = (if 0 < bd then bd else 256000),
     data = zero_data, eng_data = zero_eng_data, eng_mode = False, data_valid = False,
     rxbuf = replicate 64 0, rxpos = 0, parse_state = PARSE_HEADER, frame_len = 0,
     data_sem = 1, cmd_sem = 1, wait_sem = 0,
     frames_ok = 0, frames_err = 0, cmd_timeouts = 0\<rparr>"

section \<open>Frame parser: \<open>mmwave_parse_byte\<close>\<close>

text \<open>
  Every access to \<open>rxbuf\<close> at a computed index goes through \<open>rxbuf_store\<close> or
  \<open>rxbuf_load\<close>. An index outside the 64-byte array is undefined behaviour in C; the
  model makes it the value \<open>None\<close>, so a run that returns \<open>Some\<close> has made no access
  outside the array.
\<close>

definition rxbuf_store :: "mmwave_dev_s \<Rightarrow> nat \<Rightarrow> byte \<Rightarrow> mmwave_dev_s option" where
  "rxbuf_store priv i b =
     (if i < LD2410_MAX_FRAME_LEN then Some (priv\<lparr>rxbuf := (rxbuf priv)[i := b]\<rparr>) else None)"

definition rxbuf_load :: "mmwave_dev_s \<Rightarrow> nat \<Rightarrow> byte option" where
  "rxbuf_load priv i = (if i < LD2410_MAX_FRAME_LEN then Some (rxbuf priv ! i) else None)"

text \<open>Four bytes read as a little-endian \<open>uint32_t\<close>, and two as a \<open>uint16_t\<close>.\<close>

definition le32 :: "byte \<Rightarrow> byte \<Rightarrow> byte \<Rightarrow> byte \<Rightarrow> 32 word" where
  "le32 b0 b1 b2 b3 =
     ucast b0 OR push_bit 8 (ucast b1) OR push_bit 16 (ucast b2) OR push_bit 24 (ucast b3)"

definition le16 :: "byte \<Rightarrow> byte \<Rightarrow> 16 word" where
  "le16 b0 b1 = ucast b0 OR push_bit 8 (ucast b1)"

definition rx_header :: "mmwave_dev_s \<Rightarrow> 32 word" where
  "rx_header priv = le32 (rxbuf priv ! 0) (rxbuf priv ! 1) (rxbuf priv ! 2) (rxbuf priv ! 3)"

text \<open>\<open>memmove(priv->rxbuf, priv->rxbuf + 1, 3)\<close>: the window slides by one byte.\<close>

definition slide_window :: "byte list \<Rightarrow> byte list" where
  "slide_window buf = buf[0 := buf ! 1, 1 := buf ! 2, 2 := buf ! 3]"

definition parse_header :: "mmwave_dev_s \<Rightarrow> byte \<Rightarrow> (mmwave_dev_s \<times> int) option" where
  "parse_header priv b = do {
     p1 \<leftarrow> (if unat (rxpos priv) < 4
            then do { p \<leftarrow> rxbuf_store priv (unat (rxpos priv)) b;
                      Some (p\<lparr>rxpos := rxpos priv + 1\<rparr>) }
            else Some priv);
     if rxpos p1 = 4
     then (if rx_header p1 = LD2410_DATA_HEADER \<or> rx_header p1 = LD2410_CMD_HEADER
           then Some (p1\<lparr>parse_state := PARSE_LENGTH\<rparr>, 0)
           else Some (p1\<lparr>rxbuf := slide_window (rxbuf p1), rxpos := 3\<rparr>, 0))
     else Some (p1, 0) }"

definition parse_length :: "mmwave_dev_s \<Rightarrow> byte \<Rightarrow> (mmwave_dev_s \<times> int) option" where
  "parse_length priv b = do {
     p \<leftarrow> rxbuf_store priv (unat (rxpos priv)) b;
     let p1 = p\<lparr>rxpos := rxpos priv + 1\<rparr>;
     if rxpos p1 = 6
     then (let p2 = p1\<lparr>frame_len := le16 (rxbuf p1 ! 4) (rxbuf p1 ! 5)\<rparr> in
           if LD2410_MAX_FRAME_LEN - 10 < unat (frame_len p2)
           then Some (p2\<lparr>rxpos := 0, parse_state := PARSE_HEADER,
                          frames_err := frames_err p2 + 1\<rparr>, 0)
           else Some (p2\<lparr>parse_state := PARSE_PAYLOAD\<rparr>, 0))
     else Some (p1, 0) }"

definition parse_payload :: "mmwave_dev_s \<Rightarrow> byte \<Rightarrow> (mmwave_dev_s \<times> int) option" where
  "parse_payload priv b = do {
     p \<leftarrow> rxbuf_store priv (unat (rxpos priv)) b;
     let p1 = p\<lparr>rxpos := rxpos priv + 1\<rparr>;
     if 6 + unat (frame_len p1) + 4 \<le> unat (rxpos p1)
     then do {
       let p2 = p1\<lparr>parse_state := PARSE_TAIL\<rparr>;
       let tail_off = (6 + frame_len p2 :: 16 word);
       t0 \<leftarrow> rxbuf_load p2 (unat tail_off);
       t1 \<leftarrow> rxbuf_load p2 (unat tail_off + 1);
       t2 \<leftarrow> rxbuf_load p2 (unat tail_off + 2);
       t3 \<leftarrow> rxbuf_load p2 (unat tail_off + 3);
       let tail = le32 t0 t1 t2 t3;
       let header = rx_header p2;
       let tail_ok = (if header = LD2410_DATA_HEADER \<and> tail = LD2410_DATA_TAIL then True
                      else if header = LD2410_CMD_HEADER \<and> tail = LD2410_CMD_TAIL then True
                      else False);
       if tail_ok
       then Some (p2\<lparr>frames_ok := frames_ok p2 + 1, rxpos := 0,
                      parse_state := PARSE_HEADER\<rparr>, 1)
       else Some (p2\<lparr>frames_err := frames_err p2 + 1, rxpos := 0,
                      parse_state := PARSE_HEADER\<rparr>, 0) }
     else Some (p1, 0) }"

text \<open>
  The state machine. The result is the updated device with the return value of the C
  function: 1 when a complete frame is available, 0 otherwise.
\<close>

definition mmwave_parse_byte :: "mmwave_dev_s \<Rightarrow> byte \<Rightarrow> (mmwave_dev_s \<times> int) option" where
  "mmwave_parse_byte priv b =
     (case parse_state priv of
        PARSE_HEADER \<Rightarrow> parse_header priv b
      | PARSE_LENGTH \<Rightarrow> parse_length priv b
      | PARSE_PAYLOAD \<Rightarrow> parse_payload priv b
      | PARSE_TAIL \<Rightarrow> Some (priv\<lparr>rxpos := 0, parse_state := PARSE_HEADER\<rparr>, 0))"

text \<open>
  \<open>feed_bytes\<close> of tests/test\_parser.c: the bytes are fed one at a time and the
  return values are added up.
\<close>

fun feed_bytes :: "mmwave_dev_s \<Rightarrow> byte list \<Rightarrow> (mmwave_dev_s \<times> int) option" where
  "feed_bytes dev [] = Some (dev, 0)"
| "feed_bytes dev (b # bs) = do {
     (d1, r) \<leftarrow> mmwave_parse_byte dev b;
     (d2, n) \<leftarrow> feed_bytes d1 bs;
     Some (d2, r + n) }"


section \<open>Data frame decoder: \<open>mmwave_process_data_frame\<close>\<close>

text \<open>
  The semaphore operations of tests/stubs/nuttx/semaphore.h, the only definition the
  repository has of them: \<open>nxsem_wait\<close> decrements the count and returns 0,
  \<open>nxsem_post\<close> increments it. \<open>nxsem_wait\<close> gives the return value with the new count.
\<close>

definition nxsem_wait :: "int \<Rightarrow> int \<times> int" where
  "nxsem_wait count = (0, count - 1)"

definition nxsem_post :: "int \<Rightarrow> int" where
  "nxsem_post count = count + 1"

text \<open>\<open>TICK_PER_SEC\<close> as tests/stubs/nuttx/clock.h defines it.\<close>

definition TICK_PER_SEC :: nat where "TICK_PER_SEC = 1000"

text \<open>
  The two gate loops
  \<open>for (int i = 0; i < LD2410_MAX_GATES && i < lim; i++) gates[i] = eng[i];\<close>
  where \<open>lim\<close> is \<open>(int)priv->frame_len - 15\<close> for the motion gates and
  \<open>(int)priv->frame_len - 24\<close> for the static gates.
\<close>

function copy_gates :: "int \<Rightarrow> int \<Rightarrow> byte list \<Rightarrow> byte list \<Rightarrow> byte list" where
  "copy_gates i lim eng gates =
     (if i < int LD2410_MAX_GATES \<and> i < lim
      then copy_gates (i + 1) lim eng (gates[nat i := eng ! nat i])
      else gates)"
  by pat_completeness auto
termination
  by (relation "measure (\<lambda>(i, lim, eng, gates). nat (int LD2410_MAX_GATES - i))") auto

text \<open>
  \<open>ticks\<close> is what \<open>clock_systime_ticks()\<close> returns at the call. \<open>payload\<close> is the
  pointer \<open>&priv->rxbuf[6]\<close> and \<open>eng\<close> the pointer \<open>&payload[11]\<close>; every index used
  lies inside the 64-byte array. The result is the updated device and the return value.
\<close>

definition mmwave_process_data_frame :: "32 word \<Rightarrow> mmwave_dev_s \<Rightarrow> mmwave_dev_s \<times> int" where
  "mmwave_process_data_frame ticks priv =
     (let payload = drop 6 (rxbuf priv);
          data_type = payload ! 0
      in if data_type \<noteq> 0x02 \<and> data_type \<noteq> 0x01 then (priv, - EINVAL)
         else if payload ! 1 \<noteq> 0xAA then (priv, - EINVAL)
         else (case nxsem_wait (data_sem priv) of (ret, sem) \<Rightarrow>
           if ret < 0 then (priv\<lparr>data_sem := sem\<rparr>, ret)
           else
             let rd = \<lparr>target_state = payload ! 2,
                       motion_distance = le16 (payload ! 3) (payload ! 4),
                       motion_energy = payload ! 5,
                       static_distance = le16 (payload ! 6) (payload ! 7),
                       static_energy = payload ! 8,
                       detection_distance = le16 (payload ! 9) (payload ! 10),
                       timestamp_ms = ticks * of_nat (1000 div TICK_PER_SEC)\<rparr>;
                 p1 = priv\<lparr>data_sem := sem, data := rd, data_valid := True\<rparr>;
                 p2 = (if data_type = 0x01 \<and> eng_mode p1
                       then
                         let e0 = (eng_data p1)\<lparr>basic := data p1\<rparr>;
                             eng = drop 11 payload;
                             mg = copy_gates 0 (int (unat (frame_len p1)) - 15) eng
                                    (motion_gate_energy e0);
                             eng' = drop LD2410_MAX_GATES eng;
                             sg = copy_gates 0 (int (unat (frame_len p1)) - 24) eng'
                                    (static_gate_energy e0)
                         in p1\<lparr>eng_data := e0\<lparr>motion_gate_energy := mg,
                                                static_gate_energy := sg\<rparr>\<rparr>
                       else p1)
             in (p2\<lparr>data_sem := nxsem_post (data_sem p2)\<rparr>, OK)))"

text \<open>
  The body of the poll loop of \<open>mmwave_poll_task\<close> for the bytes the UART read returns:
  each byte is fed to the parser, and a complete frame is handed to the decoder, whose
  return value the loop ignores.
\<close>

fun poll_bytes :: "32 word \<Rightarrow> mmwave_dev_s \<Rightarrow> byte list \<Rightarrow> mmwave_dev_s option" where
  "poll_bytes ticks priv [] = Some priv"
| "poll_bytes ticks priv (b # bs) = do {
     (p1, complete) \<leftarrow> mmwave_parse_byte priv b;
     poll_bytes ticks
       (if complete \<noteq> 0 then fst (mmwave_process_data_frame ticks p1) else p1) bs }"

section \<open>Frame constructors (tests/helpers/frame\_builder.h)\<close>

definition lo8 :: "16 word \<Rightarrow> byte" where "lo8 w = ucast (w AND 0xFF)"
definition hi8 :: "16 word \<Rightarrow> byte" where "hi8 w = ucast (drop_bit 8 w AND 0xFF)"

definition build_data_frame ::
  "byte \<Rightarrow> 16 word \<Rightarrow> byte \<Rightarrow> 16 word \<Rightarrow> byte \<Rightarrow> 16 word \<Rightarrow> byte list" where
  "build_data_frame tstate motion_dist m_energy static_dist s_energy detect_dist =
     (let payload_len = (11 :: 16 word) in
      [0xF1, 0xF2, 0xF3, 0xF4, lo8 payload_len, hi8 payload_len,
       0x02, 0xAA, tstate,
       lo8 motion_dist, hi8 motion_dist, m_energy,
       lo8 static_dist, hi8 static_dist, s_energy,
       lo8 detect_dist, hi8 detect_dist,
       0xF5, 0xF6, 0xF7, 0xF8])"

definition build_eng_frame ::
  "byte \<Rightarrow> 16 word \<Rightarrow> byte \<Rightarrow> 16 word \<Rightarrow> byte \<Rightarrow> 16 word \<Rightarrow> byte list \<Rightarrow> byte list \<Rightarrow> byte list"
  where
  "build_eng_frame tstate motion_dist m_energy static_dist s_energy detect_dist
       motion_gates static_gates =
     (let payload_len = (29 :: 16 word) in
      [0xF1, 0xF2, 0xF3, 0xF4, lo8 payload_len, hi8 payload_len,
       0x01, 0xAA, tstate,
       lo8 motion_dist, hi8 motion_dist, m_energy,
       lo8 static_dist, hi8 static_dist, s_energy,
       lo8 detect_dist, hi8 detect_dist]
      @ take 9 motion_gates @ take 9 static_gates
      @ [0xF5, 0xF6, 0xF7, 0xF8])"

definition build_cmd_frame :: "16 word \<Rightarrow> byte list option \<Rightarrow> 16 word \<Rightarrow> byte list" where
  "build_cmd_frame cmd_code dat datalen =
     (let payload_len = 2 + datalen in
      [0xFA, 0xFB, 0xFC, 0xFD, lo8 payload_len, hi8 payload_len, lo8 cmd_code, hi8 cmd_code]
      @ (case dat of
           Some bytes \<Rightarrow> if 0 < unat datalen then take (unat datalen) bytes else []
         | None \<Rightarrow> [])
      @ [0x01, 0x02, 0x03, 0x04])"

section \<open>Command channel: \<open>mmwave_send_command\<close> and \<open>mmwave_ioctl\<close>\<close>

text \<open>
  The UART as the driver sees it when it writes: \<open>uart_tx\<close> lists the buffers handed to
  \<open>write\<close>, oldest first; \<open>uart_write_ret k n\<close> is what the \<open>k\<close>-th call of \<open>write\<close>
  returns when asked to write \<open>n\<close> bytes; \<open>slept_us\<close> adds up the \<open>usleep\<close> delays.
\<close>

record uart_s =
  uart_tx :: "byte list list"
  uart_write_ret :: "nat \<Rightarrow> nat \<Rightarrow> int"
  slept_us :: nat

text \<open>
  The frame is built in \<open>uint8_t frame[64]\<close>. \<open>payload_len\<close> and \<open>frame_len\<close> are
  \<open>uint16_t\<close> and wrap. The \<open>memcpy\<close> of \<open>datalen\<close> bytes and the four tail bytes
  after it must stay inside the array and inside the caller's data: otherwise the result
  is \<open>None\<close>.
\<close>

definition mmwave_send_command ::
  "mmwave_dev_s \<Rightarrow> 16 word \<Rightarrow> byte list option \<Rightarrow> 16 word \<Rightarrow> uart_s
     \<Rightarrow> (int \<times> mmwave_dev_s \<times> uart_s) option" where
  "mmwave_send_command priv cmd dat datalen u =
     (let payload_len = (2 + datalen :: 16 word);
          frame_len = (4 + 2 + payload_len + 4 :: 16 word)
      in if LD2410_MAX_FRAME_LEN < unat frame_len then Some (- EINVAL, priv, u)
         else (case nxsem_wait (cmd_sem priv) of (ret, sem) \<Rightarrow>
           if ret < 0 then Some (ret, priv\<lparr>cmd_sem := sem\<rparr>, u)
           else do {
             body \<leftarrow> (case dat of
                        Some bytes \<Rightarrow>
                          if 0 < unat datalen
                          then (if unat datalen \<le> length bytes \<and>
                                   8 + unat datalen + 4 \<le> LD2410_MAX_FRAME_LEN
                                then Some (take (unat datalen) bytes) else None)
                          else Some []
                      | None \<Rightarrow> Some []);
             let frame = [0xFA, 0xFB, 0xFC, 0xFD, lo8 payload_len, hi8 payload_len,
                          lo8 cmd, hi8 cmd] @ body @ [0x01, 0x02, 0x03, 0x04];
             let pos = length frame;
             let written = uart_write_ret u (length (uart_tx u)) pos;
             let u1 = u\<lparr>uart_tx := uart_tx u @ [frame]\<rparr>;
             let p1 = priv\<lparr>cmd_sem := nxsem_post sem\<rparr>;
             if written \<noteq> int pos then Some (- EIO, p1, u1)
             else Some (OK, p1, u1\<lparr>slept_us := slept_us u1 + 50000\<rparr>) }))"

definition mmwave_enter_config ::
  "mmwave_dev_s \<Rightarrow> uart_s \<Rightarrow> (int \<times> mmwave_dev_s \<times> uart_s) option" where
  "mmwave_enter_config priv u =
     mmwave_send_command priv LD2410_CMD_ENABLE_CONFIG (Some [0x01, 0x00]) 2 u"

definition mmwave_exit_config ::
  "mmwave_dev_s \<Rightarrow> uart_s \<Rightarrow> (int \<times> mmwave_dev_s \<times> uart_s) option" where
  "mmwave_exit_config priv u = mmwave_send_command priv LD2410_CMD_DISABLE_CONFIG None 0 u"

text \<open>
  The request of an \<open>ioctl\<close>: the command number with the argument it points to.
  \<open>MMWAVE_IOC_GET_CONFIG\<close>, \<open>MMWAVE_IOC_GET_FIRMWARE\<close> and every other number have no
  case in the switch.
\<close>

datatype ioctl_req =
    MMWAVE_IOC_SET_SENSITIVITY mmwave_sensitivity_s
  | MMWAVE_IOC_SET_MAXGATE mmwave_maxgate_s
  | MMWAVE_IOC_ENG_MODE int
  | MMWAVE_IOC_RESTART
  | MMWAVE_IOC_FACTORY_RESET
  | MMWAVE_IOC_GET_CONFIG
  | MMWAVE_IOC_GET_FIRMWARE
  | IOC_UNKNOWN int

definition sensitivity_data :: "mmwave_sensitivity_s \<Rightarrow> byte list" where
  "sensitivity_data sens =
     [0x00, 0x00, gate sens, 0x00, 0x00, 0x00,
      0x01, 0x00, motion_threshold sens, 0x00, 0x00, 0x00,
      0x02, 0x00, static_threshold sens, 0x00, 0x00, 0x00]"

definition maxgate_data :: "mmwave_maxgate_s \<Rightarrow> byte list" where
  "maxgate_data mg =
     [0x00, 0x00, max_motion_gate mg, 0x00, 0x00, 0x00,
      0x01, 0x00, max_static_gate mg, 0x00, 0x00, 0x00,
      0x02, 0x00, lo8 (timeout_s mg), hi8 (timeout_s mg), 0x00, 0x00]"

text \<open>
  The part shared by the cases of the switch after \<open>mmwave_enter_config\<close> has returned
  \<open>ret\<close>: \<open>if (ret < 0) break;\<close>, then the command, then \<open>mmwave_exit_config\<close>, whose
  return value is dropped. \<open>upd\<close> is what the case does to the device when the command
  has returned \<open>ret\<close> (only the engineering-mode case changes it).
\<close>

definition config_bracket ::
  "mmwave_dev_s \<Rightarrow> uart_s \<Rightarrow> 16 word \<Rightarrow> byte list option \<Rightarrow> 16 word
     \<Rightarrow> (int \<Rightarrow> mmwave_dev_s \<Rightarrow> mmwave_dev_s) \<Rightarrow> (int \<times> mmwave_dev_s \<times> uart_s) option" where
  "config_bracket priv u cmd dat datalen upd = do {
     (ret, p1, u1) \<leftarrow> mmwave_enter_config priv u;
     if ret < 0 then Some (ret, p1, u1)
     else do {
       (ret2, p2, u2) \<leftarrow> mmwave_send_command p1 cmd dat datalen u1;
       (_, p3, u3) \<leftarrow> mmwave_exit_config (upd ret2 p2) u2;
       Some (ret2, p3, u3) } }"

definition mmwave_ioctl ::
  "mmwave_dev_s option \<Rightarrow> ioctl_req \<Rightarrow> uart_s \<Rightarrow> (int \<times> mmwave_dev_s option \<times> uart_s) option"
  where
  "mmwave_ioctl g req u =
     (case g of
        None \<Rightarrow> Some (- ENODEV, None, u)
      | Some priv \<Rightarrow>
          map_option (\<lambda>(ret, p, u'). (ret, Some p, u'))
            (case req of
               MMWAVE_IOC_SET_SENSITIVITY sens \<Rightarrow>
                 if LD2410_MAX_GATES \<le> unat (gate sens) then Some (- EINVAL, priv, u)
                 else config_bracket priv u LD2410_CMD_SET_SENSITIVITY
                        (Some (sensitivity_data sens)) 18 (\<lambda>ret p. p)
             | MMWAVE_IOC_SET_MAXGATE mg \<Rightarrow>
                 config_bracket priv u LD2410_CMD_SET_MAXGATE
                   (Some (maxgate_data mg)) 18 (\<lambda>ret p. p)
             | MMWAVE_IOC_ENG_MODE enable \<Rightarrow>
                 if enable \<noteq> 0
                 then config_bracket priv u LD2410_CMD_ENG_MODE_ON None 0
                        (\<lambda>ret p. if ret = OK then p\<lparr>eng_mode := True\<rparr> else p)
                 else config_bracket priv u LD2410_CMD_ENG_MODE_OFF None 0
                        (\<lambda>ret p. if ret = OK then p\<lparr>eng_mode := False\<rparr> else p)
             | MMWAVE_IOC_RESTART \<Rightarrow>
                 config_bracket priv u LD2410_CMD_RESTART None 0 (\<lambda>ret p. p)
             | MMWAVE_IOC_FACTORY_RESET \<Rightarrow>
                 config_bracket priv u LD2410_CMD_FACTORY_RESET None 0 (\<lambda>ret p. p)
             | _ \<Rightarrow> Some (- ENOTTY, priv, u)))"


section \<open>Reading the latest data: \<open>mmwave_read\<close>\<close>

text \<open>
  \<open>sizeof(struct mmwave_data_s)\<close> and \<open>sizeof(struct mmwave_eng_data_s)\<close> with the
  natural alignment of the fields (a \<open>uint32_t\<close> aligned to 4 bytes): 16 bytes, and
  16 + 9 + 9 rounded up to 36.
\<close>

definition sizeof_mmwave_data_s :: nat where "sizeof_mmwave_data_s = 16"
definition sizeof_mmwave_eng_data_s :: nat where "sizeof_mmwave_eng_data_s = 36"

text \<open>
  The caller's buffer: the bytes it held before the call, or the structure that
  \<open>memcpy\<close> has copied into it.
\<close>

datatype user_buffer =
    Untouched "byte list"
  | DataPacket mmwave_data_s
  | EngPacket mmwave_eng_data_s

text \<open>
  \<open>g\<close> is the global \<open>g_mmwave_dev\<close> (\<open>None\<close> for \<open>NULL\<close>). The result is the return
  value, the caller's buffer after the call and the device after the call.
\<close>

definition mmwave_read ::
  "mmwave_dev_s option \<Rightarrow> user_buffer \<Rightarrow> nat \<Rightarrow> int \<times> user_buffer \<times> mmwave_dev_s option" where
  "mmwave_read g buffer buflen =
     (case g of
        None \<Rightarrow> (- ENODEV, buffer, None)
      | Some priv \<Rightarrow>
          if \<not> data_valid priv then (- EAGAIN, buffer, Some priv)
          else (case nxsem_wait (data_sem priv) of (ret, sem) \<Rightarrow>
            if ret < 0 then (ret, buffer, Some (priv\<lparr>data_sem := sem\<rparr>))
            else if eng_mode priv \<and> sizeof_mmwave_eng_data_s \<le> buflen
            then (int sizeof_mmwave_eng_data_s, EngPacket (eng_data priv),
                  Some (priv\<lparr>data_sem := nxsem_post sem\<rparr>))
            else if sizeof_mmwave_data_s \<le> buflen
            then (int sizeof_mmwave_data_s, DataPacket (data priv),
                  Some (priv\<lparr>data_sem := nxsem_post sem\<rparr>))
            else (- EINVAL, buffer, Some (priv\<lparr>data_sem := nxsem_post sem\<rparr>))))"

section \<open>Reporter (apps/hactl/hactl\_cmd.c)\<close>

definition HA_HTTP_BUF_SIZE :: nat where "HA_HTTP_BUF_SIZE = 512"

record ha_config_s =
  url :: string
  port :: "16 word"
  token :: string

text \<open>
  What the network calls of one \<open>ha_post_state\<close> return: \<open>socket\<close>, \<open>inet_pton\<close>,
  whether \<open>gethostbyname\<close> finds the host, \<open>connect\<close>, the value of \<open>errno\<close> after a
  failed call, whether \<open>send\<close> reports the whole request as sent, and the bytes
  \<open>recv\<close> delivers (\<open>None\<close> when it returns a negative value).
\<close>

record net_s =
  socket_ret :: int
  inet_pton_ret :: int
  gethostbyname_found :: bool
  connect_ret :: int
  net_errno :: int
  send_complete :: bool
  recv_data :: "string option"

text \<open>
  \<open>strstr(haystack, needle) != NULL\<close> on C strings; a C string ends at its first NUL.
\<close>

fun strstr :: "string \<Rightarrow> string \<Rightarrow> bool" where
  "strstr [] needle = (needle = [])"
| "strstr (c # cs) needle = (prefix needle (c # cs) \<or> strstr cs needle)"

definition c_string :: "string \<Rightarrow> string" where
  "c_string s = takeWhile (\<lambda>c. c \<noteq> CHR 0x00) s"

text \<open>
  The checks of \<open>ha_post_state\<close> in their order. The request text that is built between
  \<open>connect\<close> and \<open>send\<close> does not influence the return value beyond \<open>send_complete\<close>.
  \<open>recv\<close> is given \<open>sizeof(http_buf) - 1\<close> bytes of room.
\<close>

definition ha_post_state :: "ha_config_s \<Rightarrow> net_s \<Rightarrow> mmwave_data_s \<Rightarrow> int" where
  "ha_post_state cfg net rd =
     (if url cfg = [] \<or> token cfg = [] then - EINVAL
      else if socket_ret net < 0 then - net_errno net
      else if inet_pton_ret net \<le> 0 \<and> \<not> gethostbyname_found net then - ENOENT
      else if connect_ret net < 0 then - net_errno net
      else if \<not> send_complete net then - EIO
      else (case recv_data net of
              None \<Rightarrow> - EIO
            | Some resp \<Rightarrow>
                let received = take (HA_HTTP_BUF_SIZE - 1) resp;
                    nread = length received;
                    http_buf = c_string received
                in if 0 < nread \<and> (strstr http_buf ''200'' \<or> strstr http_buf ''201'')
                   then OK else - EIO))"

text \<open>
  One turn of the loop of \<open>ha_report_task\<close>: \<open>rd\<close> is the reading when \<open>read\<close>
  returned a whole \<open>struct mmwave_data_s\<close>, and the result is the new \<open>prev_state\<close>.
\<close>

definition ha_report_iteration ::
  "ha_config_s \<Rightarrow> net_s \<Rightarrow> byte \<Rightarrow> mmwave_data_s option \<Rightarrow> byte" where
  "ha_report_iteration cfg net prev_state rd =
     (case rd of
        None \<Rightarrow> prev_state
      | Some reading \<Rightarrow>
          if target_state reading \<noteq> prev_state
          then (if ha_post_state cfg net reading = OK then target_state reading
                else prev_state)
          else prev_state)"


section \<open>Expected frames and sample environments of the command channel\<close>

text \<open>
  A UART on which every \<open>write\<close> reports all bytes written, and one on which the third
  \<open>write\<close> fails. \<open>write_ok u k frame\<close>: the \<open>k\<close>-th \<open>write\<close> reports the whole frame
  written. The frames expected on the wire are built with \<open>build_cmd_frame\<close> of the
  tests' frame builder; \<open>config_frame\<close> gives the command frame of each configuration
  request that passes the argument check of the switch.
\<close>

definition uart_idle :: uart_s where
  "uart_idle = \<lparr>uart_tx = [], uart_write_ret = (\<lambda>k n. int n), slept_us = 0\<rparr>"

definition uart_third_write_fails :: uart_s where
  "uart_third_write_fails =
     \<lparr>uart_tx = [], uart_write_ret = (\<lambda>k n. if k = 2 then - 1 else int n), slept_us = 0\<rparr>"

definition write_ok :: "uart_s \<Rightarrow> nat \<Rightarrow> byte list \<Rightarrow> bool" where
  "write_ok u k frame = (uart_write_ret u k (length frame) = int (length frame))"

definition enter_config_frame :: "byte list" where
  "enter_config_frame = build_cmd_frame LD2410_CMD_ENABLE_CONFIG (Some [0x01, 0x00]) 2"

definition exit_config_frame :: "byte list" where
  "exit_config_frame = build_cmd_frame LD2410_CMD_DISABLE_CONFIG None 0"

fun config_frame :: "ioctl_req \<Rightarrow> byte list option" where
  "config_frame (MMWAVE_IOC_SET_SENSITIVITY sens) =
     (if unat (gate sens) \<le> 8
      then Some (build_cmd_frame LD2410_CMD_SET_SENSITIVITY (Some (sensitivity_data sens)) 18)
      else None)"
| "config_frame (MMWAVE_IOC_SET_MAXGATE mg) =
     Some (build_cmd_frame LD2410_CMD_SET_MAXGATE (Some (maxgate_data mg)) 18)"
| "config_frame (MMWAVE_IOC_ENG_MODE enable) =
     Some (build_cmd_frame (if enable \<noteq> 0 then LD2410_CMD_ENG_MODE_ON else LD2410_CMD_ENG_MODE_OFF) None 0)"
| "config_frame MMWAVE_IOC_RESTART = Some (build_cmd_frame LD2410_CMD_RESTART None 0)"
| "config_frame MMWAVE_IOC_FACTORY_RESET = Some (build_cmd_frame LD2410_CMD_FACTORY_RESET None 0)"
| "config_frame _ = None"

section \<open>A sample environment of the reporter\<close>

text \<open>
  A reporter configuration, a network on which every call succeeds and \<open>recv\<close>
  delivers the given response, a reading, and a response whose status is 404 and whose
  \<open>Content-Length\<close> header has the value 200.
\<close>

definition response_404 :: string where
  "response_404 = ''HTTP/1.1 404 Not Found'' @ [CHR 0x0D, CHR 0x0A] @
                  ''Content-Length: 200'' @ [CHR 0x0D, CHR 0x0A, CHR 0x0D, CHR 0x0A]"

definition ha_config_example :: ha_config_s where
  "ha_config_example = \<lparr>url = ''192.168.1.100'', port = 8123, token = ''secret''\<rparr>"

definition net_answers :: "string \<Rightarrow> net_s" where
  "net_answers resp = \<lparr>socket_ret = 3, inet_pton_ret = 1, gethostbyname_found = False,
     connect_ret = 0, net_errno = 0, send_complete = True, recv_data = Some resp\<rparr>"

definition reading_motion :: mmwave_data_s where
  "reading_motion = \<lparr>target_state = 0x01, motion_distance = 150, motion_energy = 80,
     static_distance = 0, static_energy = 0, detection_distance = 150, timestamp_ms = 12345\<rparr>"

section \<open>Frames on the wire and the parser's progress\<close>

text \<open>
  The shape the three constructors of the frame builder share: the magic of the family,
  the payload length as two little-endian bytes, the payload and the terminator of the
  family. \<open>is_cmd\<close> selects the command family.
\<close>

definition frame_header :: "bool \<Rightarrow> byte list" where
  "frame_header is_cmd = (if is_cmd then [0xFA, 0xFB, 0xFC, 0xFD] else [0xF1, 0xF2, 0xF3, 0xF4])"

definition frame_tail :: "bool \<Rightarrow> byte list" where
  "frame_tail is_cmd = (if is_cmd then [0x01, 0x02, 0x03, 0x04] else [0xF5, 0xF6, 0xF7, 0xF8])"

definition wire_frame :: "bool \<Rightarrow> byte list \<Rightarrow> byte list" where
  "wire_frame is_cmd payload =
     frame_header is_cmd @ [lo8 (of_nat (length payload)), hi8 (of_nat (length payload))]
     @ payload @ frame_tail is_cmd"

text \<open>
  \<open>parser_inv\<close>: what holds of the device between two calls of \<open>mmwave_parse_byte\<close>.
  \<open>mid_frame F len d n\<close>: the parser has taken the first \<open>n\<close> bytes of the frame \<open>F\<close>
  with payload length \<open>len\<close>, header included, and holds them at the start of the buffer.
\<close>

definition parser_inv :: "mmwave_dev_s \<Rightarrow> bool" where
  "parser_inv d = (length (rxbuf d) = 64 \<and>
     (case parse_state d of
        PARSE_HEADER \<Rightarrow> unat (rxpos d) \<le> 3
      | PARSE_LENGTH \<Rightarrow> 4 \<le> unat (rxpos d) \<and> unat (rxpos d) \<le> 5
      | PARSE_PAYLOAD \<Rightarrow> unat (frame_len d) \<le> 54 \<and> 6 \<le> unat (rxpos d) \<and>
                          unat (rxpos d) < 6 + unat (frame_len d) + 4
      | PARSE_TAIL \<Rightarrow> False))"

definition mid_frame :: "byte list \<Rightarrow> nat \<Rightarrow> mmwave_dev_s \<Rightarrow> nat \<Rightarrow> bool" where
  "mid_frame F len d n = (length (rxbuf d) = 64 \<and> unat (rxpos d) = n \<and>
      take n (rxbuf d) = take n F \<and>
      (if n < 6 then parse_state d = PARSE_LENGTH
       else parse_state d = PARSE_PAYLOAD \<and> unat (frame_len d) = len))"

chapter \<open>Verification\<close>

section \<open>Evaluation rules and word arithmetic\<close>

lemmas parser_defs = dev_init_def mmwave_parse_byte_def parse_header_def parse_length_def
  parse_payload_def rxbuf_store_def rxbuf_load_def rx_header_def le32_def le16_def
  slide_window_def LD2410_MAX_FRAME_LEN_def LD2410_DATA_HEADER_def LD2410_CMD_HEADER_def
  LD2410_DATA_TAIL_def LD2410_CMD_TAIL_def

lemma unat_inc: "unat (x :: byte) < 255 \<Longrightarrow> unat (x + 1) = unat x + 1"
  by (simp add: unat_word_ariths)

lemma rxpos_inc_eq:
  "unat (x :: byte) < 255 \<Longrightarrow> (x + 1 = 4) = (unat x = 3)"
  "unat (x :: byte) < 255 \<Longrightarrow> (x + 1 = 6) = (unat x = 5)"
  by (simp_all add: word_unat_eq_iff unat_inc)

lemma unat_tail_off: "unat (n :: 16 word) \<le> 54 \<Longrightarrow> unat (6 + n) = 6 + unat n"
  by (simp add: unat_word_ariths)

section \<open>The parser's invariant\<close>

text \<open>
  Between two calls of \<open>mmwave_parse_byte\<close> the write position is bounded by the state:
  at most 3 while seeking the header, 4 or 5 in the length field, and inside the frame
  announced by a length of at most 54 while reading the payload and the tail.
  \<open>PARSE_TAIL\<close> is only ever set and left within one call.
\<close>

lemma parser_inv_init: "parser_inv (dev_init bd)"
  by (simp add: parser_inv_def dev_init_def)

text \<open>
  One step keeps the invariant, never leaves the array, returns 0 or 1, and a return of 1
  uses up at least ten buffered bytes.
\<close>

lemma parse_header_step:
  assumes "parser_inv d" "parse_state d = PARSE_HEADER"
  shows "\<exists>d' r. parse_header d b = Some (d', r) \<and> parser_inv d' \<and> (r = 0 \<or> r = 1) \<and>
           10 * nat r + unat (rxpos d') \<le> unat (rxpos d) + 1"
  using assms
  by (auto simp: parser_inv_def parse_header_def rxbuf_store_def LD2410_MAX_FRAME_LEN_def
       unat_inc rxpos_inc_eq slide_window_def)

lemma parse_length_step:
  assumes "parser_inv d" "parse_state d = PARSE_LENGTH"
  shows "\<exists>d' r. parse_length d b = Some (d', r) \<and> parser_inv d' \<and> (r = 0 \<or> r = 1) \<and>
           10 * nat r + unat (rxpos d') \<le> unat (rxpos d) + 1"
  using assms
  by (auto simp: parser_inv_def parse_length_def rxbuf_store_def LD2410_MAX_FRAME_LEN_def
       unat_inc rxpos_inc_eq Let_def)

lemma parse_payload_step:
  assumes "parser_inv d" "parse_state d = PARSE_PAYLOAD"
  shows "\<exists>d' r. parse_payload d b = Some (d', r) \<and> parser_inv d' \<and> (r = 0 \<or> r = 1) \<and>
           10 * nat r + unat (rxpos d') \<le> unat (rxpos d) + 1"
  using assms
  by (auto simp: parser_inv_def parse_payload_def rxbuf_store_def rxbuf_load_def
       LD2410_MAX_FRAME_LEN_def unat_inc unat_tail_off Let_def)

lemma parse_byte_step:
  assumes "parser_inv d"
  shows "\<exists>d' r. mmwave_parse_byte d b = Some (d', r) \<and> parser_inv d' \<and> (r = 0 \<or> r = 1) \<and>
           10 * nat r + unat (rxpos d') \<le> unat (rxpos d) + 1"
proof (cases "parse_state d")
  case PARSE_HEADER
  then show ?thesis using parse_header_step[OF assms] by (simp add: mmwave_parse_byte_def)
next
  case PARSE_LENGTH
  then show ?thesis using parse_length_step[OF assms] by (simp add: mmwave_parse_byte_def)
next
  case PARSE_PAYLOAD
  then show ?thesis using parse_payload_step[OF assms] by (simp add: mmwave_parse_byte_def)
next
  case PARSE_TAIL
  then show ?thesis using assms by (simp add: parser_inv_def)
qed

lemma feed_bytes_inv:
  "parser_inv d \<Longrightarrow> \<exists>d' n. feed_bytes d bs = Some (d', n) \<and> parser_inv d' \<and> 0 \<le> n \<and>
      10 * nat n + unat (rxpos d') \<le> unat (rxpos d) + length bs"
proof (induction bs arbitrary: d)
  case Nil
  then show ?case by simp
next
  case (Cons b bs)
  from parse_byte_step[OF Cons.prems, of b] obtain d1 r where
    s: "mmwave_parse_byte d b = Some (d1, r)" "parser_inv d1" "r = 0 \<or> r = 1"
       "10 * nat r + unat (rxpos d1) \<le> unat (rxpos d) + 1" by blast
  from Cons.IH[OF s(2)] obtain d2 n where
    f: "feed_bytes d1 bs = Some (d2, n)" "parser_inv d2" "0 \<le> n"
       "10 * nat n + unat (rxpos d2) \<le> unat (rxpos d1) + length bs" by blast
  have "nat (r + n) = nat r + nat n" using s(3) f(3) by auto
  then show ?case using s f by auto
qed

section \<open>Claims about the parser\<close>

text \<open>
  C1. Whatever bytes are fed one at a time to the freshly initialised parser, the run
  returns a state, so every store into \<open>rxbuf\<close> (and every load at a computed index)
  used an index below 64. The array keeps its 64 bytes, the next write position is below
  64, and while a payload is being read the announced frame ends inside the array:
  \<open>6 + len + 4 \<le> 64\<close>.
\<close>

theorem parser_stores_in_bounds:
  "\<exists>d n. feed_bytes (dev_init bd) bs = Some (d, n) \<and> length (rxbuf d) = 64 \<and>
     unat (rxpos d) < 64 \<and>
     (parse_state d = PARSE_PAYLOAD \<longrightarrow> 6 + unat (frame_len d) + 4 \<le> 64)"
proof -
  from feed_bytes_inv[OF parser_inv_init, of bd bs] obtain d n where
    f: "feed_bytes (dev_init bd) bs = Some (d, n)" and i: "parser_inv d" by blast
  from i have "length (rxbuf d) = 64" by (simp add: parser_inv_def)
  moreover from i have "unat (rxpos d) < 64"
    by (cases "parse_state d") (auto simp: parser_inv_def)
  moreover from i have "parse_state d = PARSE_PAYLOAD \<longrightarrow> 6 + unat (frame_len d) + 4 \<le> 64"
    by (auto simp: parser_inv_def)
  ultimately show ?thesis using f by blast
qed

theorem parser_stores_in_bounds_witness:
  "\<exists>d n. feed_bytes (dev_init 0) [0xF1, 0xF2, 0xF3, 0xF4, 0x0B, 0x00, 0x02] = Some (d, n) \<and>
     parse_state d = PARSE_PAYLOAD \<and> 6 + unat (frame_len d) + 4 \<le> 64"
proof -
  have "map_option (parse_state \<circ> fst)
          (feed_bytes (dev_init 0) [0xF1, 0xF2, 0xF3, 0xF4, 0x0B, 0x00, 0x02])
        = Some PARSE_PAYLOAD"
    by (simp add: parser_defs)
  then show ?thesis
    using parser_stores_in_bounds[of 0 "[0xF1, 0xF2, 0xF3, 0xF4, 0x0B, 0x00, 0x02]"]
    by auto
qed

text \<open>
  C5, as the code has it. A frame with an empty payload is ten bytes long (4 header, 2
  length, 4 tail), so a stream \<open>S\<close> fed to a fresh parser yields at most
  \<open>|S| div 10\<close> returns of 1, and the run never fails.
\<close>

theorem complete_events_bound:
  "\<exists>d n. feed_bytes (dev_init bd) S = Some (d, n) \<and> 0 \<le> n \<and> n \<le> int (length S div 10)"
proof -
  from feed_bytes_inv[OF parser_inv_init, of bd S] obtain d n where
    f: "feed_bytes (dev_init bd) S = Some (d, n)" and n: "0 \<le> n"
    and b: "10 * nat n + unat (rxpos d) \<le> unat (rxpos (dev_init bd)) + length S" by blast
  have "unat (rxpos (dev_init bd)) = 0" by (simp add: dev_init_def)
  with b have "10 * nat n \<le> length S" by simp
  then have "nat n \<le> length S div 10" by arith
  with n have "n \<le> int (length S div 10)" by linarith
  with f n show ?thesis by blast
qed

text \<open>
  C5, as the spec states it, fails: the ten bytes of an empty data frame give one
  complete frame, and \<open>10 div 14 = 0\<close>.
\<close>

theorem complete_events_bound_14_counterexample:
  "map_option snd (feed_bytes (dev_init 0)
      [0xF1, 0xF2, 0xF3, 0xF4, 0x00, 0x00, 0xF5, 0xF6, 0xF7, 0xF8]) = Some 1 \<and>
   \<not> (1 \<le> int (length [0xF1, 0xF2, 0xF3, 0xF4, 0x00, 0x00, 0xF5, 0xF6, 0xF7, 0xF8 :: byte]
                  div 14))"
  by (simp add: parser_defs)


section \<open>Claims about the decoder and the read path\<close>

text \<open>
  C3. When the decoder rejects the frame in the buffer, because the data type at
  payload offset 0 is neither 0x01 nor 0x02 or the head marker at offset 1 is not 0xAA,
  it returns \<open>-EINVAL\<close> and the device is unchanged: the latest reading, the
  engineering data, \<open>frames_ok\<close> and \<open>data_valid\<close> keep their values.
\<close>

theorem decoder_rejection_keeps_state:
  assumes "length (rxbuf priv) = 64"
    and "(rxbuf priv ! 6 \<noteq> 0x01 \<and> rxbuf priv ! 6 \<noteq> 0x02) \<or> rxbuf priv ! 7 \<noteq> 0xAA"
  shows "\<exists>d'. mmwave_process_data_frame ticks priv = (d', - EINVAL) \<and>
           data d' = data priv \<and> eng_data d' = eng_data priv \<and>
           frames_ok d' = frames_ok priv \<and> data_valid d' = data_valid priv \<and> d' = priv"
  using assms by (auto simp: mmwave_process_data_frame_def Let_def)

theorem decoder_rejection_keeps_state_witness:
  "mmwave_process_data_frame 12345
     ((dev_init 0)\<lparr>data_valid := True, rxbuf := (replicate 64 0)[6 := 0x05, 7 := 0xAA]\<rparr>)
   = ((dev_init 0)\<lparr>data_valid := True, rxbuf := (replicate 64 0)[6 := 0x05, 7 := 0xAA]\<rparr>, - EINVAL)"
  using decoder_rejection_keeps_state[of
     "(dev_init 0)\<lparr>data_valid := True, rxbuf := (replicate 64 0)[6 := 0x05, 7 := 0xAA]\<rparr>" 12345]
  by (simp add: dev_init_def)

text \<open>
  C10. Once \<open>data_valid\<close> is set, a read with a buffer shorter than
  \<open>struct mmwave_data_s\<close> (hence also too short for the engineering packet) returns
  \<open>-EINVAL\<close>, leaves the caller's buffer as it was and leaves the device unchanged.
\<close>

theorem read_short_buffer:
  assumes "data_valid priv" and "buflen < sizeof_mmwave_data_s"
  shows "mmwave_read (Some priv) buffer buflen = (- EINVAL, buffer, Some priv)"
  using assms
  by (simp add: mmwave_read_def nxsem_wait_def nxsem_post_def sizeof_mmwave_data_s_def
      sizeof_mmwave_eng_data_s_def)

theorem read_short_buffer_witness:
  "mmwave_read (Some ((dev_init 0)\<lparr>data_valid := True, eng_mode := True\<rparr>)) (Untouched [1, 2, 3]) 15
   = (- EINVAL, Untouched [1, 2, 3], Some ((dev_init 0)\<lparr>data_valid := True, eng_mode := True\<rparr>))"
  using read_short_buffer[of "(dev_init 0)\<lparr>data_valid := True, eng_mode := True\<rparr>" 15 "Untouched [1, 2, 3]"]
  by (simp add: sizeof_mmwave_data_s_def)

section \<open>Claims about the command channel\<close>

lemmas cmd_defs = mmwave_send_command_def mmwave_enter_config_def mmwave_exit_config_def
  config_bracket_def mmwave_ioctl_def nxsem_wait_def nxsem_post_def lo8_def hi8_def
  LD2410_MAX_FRAME_LEN_def LD2410_MAX_GATES_def OK_def EIO_def EINVAL_def ENODEV_def ENOTTY_def
  sensitivity_data_def maxgate_data_def build_cmd_frame_def
  LD2410_CMD_ENABLE_CONFIG_def LD2410_CMD_DISABLE_CONFIG_def LD2410_CMD_SET_MAXGATE_def
  LD2410_CMD_SET_SENSITIVITY_def LD2410_CMD_FACTORY_RESET_def LD2410_CMD_RESTART_def
  LD2410_CMD_ENG_MODE_ON_def LD2410_CMD_ENG_MODE_OFF_def





lemma word16_small: "unat (datalen :: 16 word) \<le> 52 \<Longrightarrow> unat (12 + datalen) = 12 + unat datalen"
  by (simp add: unat_word_ariths)

lemma send_command_some:
  assumes "unat datalen \<le> 52"
    and "case dat of None \<Rightarrow> True | Some bytes \<Rightarrow> unat datalen \<le> length bytes"
  shows "mmwave_send_command priv cmd dat datalen u =
     Some (if write_ok u (length (uart_tx u)) (build_cmd_frame cmd dat datalen) then OK else - EIO,
           priv,
           u\<lparr>uart_tx := uart_tx u @ [build_cmd_frame cmd dat datalen],
             slept_us := slept_us u +
               (if write_ok u (length (uart_tx u)) (build_cmd_frame cmd dat datalen)
                then 50000 else 0)\<rparr>)"
  using assms
  by (auto simp: mmwave_send_command_def Let_def nxsem_wait_def nxsem_post_def write_ok_def
       build_cmd_frame_def word16_small LD2410_MAX_FRAME_LEN_def split: option.splits)

lemma config_bracket_some:
  assumes "unat datalen \<le> 52"
    and "case dat of None \<Rightarrow> True | Some bytes \<Rightarrow> unat datalen \<le> length bytes"
  shows "\<exists>ret p' u'. config_bracket priv u cmd dat datalen upd = Some (ret, p', u') \<and>
     (if write_ok u (length (uart_tx u)) enter_config_frame
      then uart_tx u' = uart_tx u @ [enter_config_frame, build_cmd_frame cmd dat datalen,
                                     exit_config_frame] \<and>
           ret = (if write_ok u (length (uart_tx u) + 1) (build_cmd_frame cmd dat datalen)
                  then OK else - EIO)
      else uart_tx u' = uart_tx u @ [enter_config_frame] \<and> ret = - EIO)"
  using assms
  by (simp add: config_bracket_def mmwave_enter_config_def mmwave_exit_config_def
       send_command_some enter_config_frame_def exit_config_frame_def write_ok_def
       OK_def EIO_def)

lemma ioctl_config_bracket:
  assumes "unat datalen \<le> 52"
    and "case dat of None \<Rightarrow> True | Some bytes \<Rightarrow> unat datalen \<le> length bytes"
    and "mmwave_ioctl (Some priv) req u =
           map_option (\<lambda>(ret, p, u'). (ret, Some p, u'))
             (config_bracket priv u cmd dat datalen upd)"
    and "cf = build_cmd_frame cmd dat datalen"
  shows "\<exists>ret p' u'. mmwave_ioctl (Some priv) req u = Some (ret, Some p', u') \<and>
     (if write_ok u (length (uart_tx u)) enter_config_frame
      then uart_tx u' = uart_tx u @ [enter_config_frame, cf, exit_config_frame] \<and>
           ret = (if write_ok u (length (uart_tx u) + 1) cf then OK else - EIO)
      else uart_tx u' = uart_tx u @ [enter_config_frame] \<and> ret = - EIO)"
proof -
  from config_bracket_some[OF assms(1,2), of priv u cmd upd] obtain ret p' u' where
    b: "config_bracket priv u cmd dat datalen upd = Some (ret, p', u')"
    and r: "if write_ok u (length (uart_tx u)) enter_config_frame
      then uart_tx u' = uart_tx u @ [enter_config_frame, build_cmd_frame cmd dat datalen,
                                     exit_config_frame] \<and>
           ret = (if write_ok u (length (uart_tx u) + 1) (build_cmd_frame cmd dat datalen)
                  then OK else - EIO)
      else uart_tx u' = uart_tx u @ [enter_config_frame] \<and> ret = - EIO"
    by blast
  have "mmwave_ioctl (Some priv) req u = Some (ret, Some p', u')"
    by (simp add: assms(3) b)
  with r assms(4) show ?thesis by blast
qed

text \<open>
  C7, as the code has it. A configuration request that passes the argument check first
  sends enter-config. When that write fails the request returns \<open>-EIO\<close> and nothing
  else is sent. Otherwise the command frame and then exit-config are sent, and the
  return value is that of the command alone: the result of exit-config is dropped.
\<close>

theorem config_operation_bracket:
  assumes "config_frame req = Some cf"
  shows "\<exists>ret p' u'. mmwave_ioctl (Some priv) req u = Some (ret, Some p', u') \<and>
     (if write_ok u (length (uart_tx u)) enter_config_frame
      then uart_tx u' = uart_tx u @ [enter_config_frame, cf, exit_config_frame] \<and>
           ret = (if write_ok u (length (uart_tx u) + 1) cf then OK else - EIO)
      else uart_tx u' = uart_tx u @ [enter_config_frame] \<and> ret = - EIO)"
proof (cases req)
  case (MMWAVE_IOC_SET_SENSITIVITY sens)
  with assms have g: "unat (gate sens) \<le> 8"
    and cf: "cf = build_cmd_frame LD2410_CMD_SET_SENSITIVITY (Some (sensitivity_data sens)) 18"
    by (auto split: if_splits)
  show ?thesis
  proof (rule ioctl_config_bracket[OF _ _ _ cf])
    show "unat (18 :: 16 word) \<le> 52" by simp
    show "case Some (sensitivity_data sens) of None \<Rightarrow> True
          | Some bytes \<Rightarrow> unat (18 :: 16 word) \<le> length bytes"
      by (simp add: sensitivity_data_def)
    show "mmwave_ioctl (Some priv) req u =
           map_option (\<lambda>(ret, p, u'). (ret, Some p, u'))
             (config_bracket priv u LD2410_CMD_SET_SENSITIVITY (Some (sensitivity_data sens)) 18
                (\<lambda>ret p. p))"
      using g by (simp add: mmwave_ioctl_def MMWAVE_IOC_SET_SENSITIVITY LD2410_MAX_GATES_def)
  qed
next
  case (MMWAVE_IOC_SET_MAXGATE mg)
  with assms have cf: "cf = build_cmd_frame LD2410_CMD_SET_MAXGATE (Some (maxgate_data mg)) 18"
    by auto
  show ?thesis
  proof (rule ioctl_config_bracket[OF _ _ _ cf])
    show "unat (18 :: 16 word) \<le> 52" by simp
    show "case Some (maxgate_data mg) of None \<Rightarrow> True
          | Some bytes \<Rightarrow> unat (18 :: 16 word) \<le> length bytes"
      by (simp add: maxgate_data_def)
    show "mmwave_ioctl (Some priv) req u =
           map_option (\<lambda>(ret, p, u'). (ret, Some p, u'))
             (config_bracket priv u LD2410_CMD_SET_MAXGATE (Some (maxgate_data mg)) 18
                (\<lambda>ret p. p))"
      by (simp add: mmwave_ioctl_def MMWAVE_IOC_SET_MAXGATE)
  qed
next
  case (MMWAVE_IOC_ENG_MODE enable)
  show ?thesis
  proof (cases "enable = 0")
    case True
    with assms MMWAVE_IOC_ENG_MODE have cf: "cf = build_cmd_frame LD2410_CMD_ENG_MODE_OFF None 0"
      by auto
    show ?thesis
    proof (rule ioctl_config_bracket[OF _ _ _ cf])
      show "unat (0 :: 16 word) \<le> 52" by simp
      show "case None :: byte list option of None \<Rightarrow> True
            | Some bytes \<Rightarrow> unat (0 :: 16 word) \<le> length bytes"
        by simp
      show "mmwave_ioctl (Some priv) req u =
             map_option (\<lambda>(ret, p, u'). (ret, Some p, u'))
               (config_bracket priv u LD2410_CMD_ENG_MODE_OFF None 0
                  (\<lambda>ret p. if ret = OK then p\<lparr>eng_mode := False\<rparr> else p))"
        using True by (simp add: mmwave_ioctl_def MMWAVE_IOC_ENG_MODE)
    qed
  next
    case False
    with assms MMWAVE_IOC_ENG_MODE have cf: "cf = build_cmd_frame LD2410_CMD_ENG_MODE_ON None 0"
      by auto
    show ?thesis
    proof (rule ioctl_config_bracket[OF _ _ _ cf])
      show "unat (0 :: 16 word) \<le> 52" by simp
      show "case None :: byte list option of None \<Rightarrow> True
            | Some bytes \<Rightarrow> unat (0 :: 16 word) \<le> length bytes"
        by simp
      show "mmwave_ioctl (Some priv) req u =
             map_option (\<lambda>(ret, p, u'). (ret, Some p, u'))
               (config_bracket priv u LD2410_CMD_ENG_MODE_ON None 0
                  (\<lambda>ret p. if ret = OK then p\<lparr>eng_mode := True\<rparr> else p))"
        using False by (simp add: mmwave_ioctl_def MMWAVE_IOC_ENG_MODE)
    qed
  qed
next
  case MMWAVE_IOC_RESTART
  with assms have cf: "cf = build_cmd_frame LD2410_CMD_RESTART None 0" by auto
  show ?thesis
  proof (rule ioctl_config_bracket[OF _ _ _ cf])
    show "unat (0 :: 16 word) \<le> 52" by simp
    show "case None :: byte list option of None \<Rightarrow> True
          | Some bytes \<Rightarrow> unat (0 :: 16 word) \<le> length bytes"
      by simp
    show "mmwave_ioctl (Some priv) req u =
           map_option (\<lambda>(ret, p, u'). (ret, Some p, u'))
             (config_bracket priv u LD2410_CMD_RESTART None 0 (\<lambda>ret p. p))"
      by (simp add: mmwave_ioctl_def MMWAVE_IOC_RESTART)
  qed
next
  case MMWAVE_IOC_FACTORY_RESET
  with assms have cf: "cf = build_cmd_frame LD2410_CMD_FACTORY_RESET None 0" by auto
  show ?thesis
  proof (rule ioctl_config_bracket[OF _ _ _ cf])
    show "unat (0 :: 16 word) \<le> 52" by simp
    show "case None :: byte list option of None \<Rightarrow> True
          | Some bytes \<Rightarrow> unat (0 :: 16 word) \<le> length bytes"
      by simp
    show "mmwave_ioctl (Some priv) req u =
           map_option (\<lambda>(ret, p, u'). (ret, Some p, u'))
             (config_bracket priv u LD2410_CMD_FACTORY_RESET None 0 (\<lambda>ret p. p))"
      by (simp add: mmwave_ioctl_def MMWAVE_IOC_FACTORY_RESET)
  qed
next
  case MMWAVE_IOC_GET_CONFIG
  with assms show ?thesis by simp
next
  case MMWAVE_IOC_GET_FIRMWARE
  with assms show ?thesis by simp
next
  case (IOC_UNKNOWN x)
  with assms show ?thesis by simp
qed

text \<open>
  C7, as the spec states it, fails. When the writes of enter-config and of the restart
  command succeed and the write of exit-config fails, the request returns \<open>OK\<close> with all
  three frames handed to the UART, although \<open>mmwave_exit_config\<close>, called on the device
  and the UART as they are after the first two steps, returns \<open>-EIO\<close>.
\<close>

theorem config_operation_first_error_counterexample:
  "map_option fst (mmwave_ioctl (Some (dev_init 0)) MMWAVE_IOC_RESTART uart_third_write_fails)
     = Some OK \<and>
   map_option (uart_tx \<circ> snd \<circ> snd)
     (mmwave_ioctl (Some (dev_init 0)) MMWAVE_IOC_RESTART uart_third_write_fails)
     = Some [enter_config_frame, build_cmd_frame LD2410_CMD_RESTART None 0, exit_config_frame] \<and>
   map_option fst (mmwave_exit_config (dev_init 0)
      (uart_third_write_fails\<lparr>uart_tx :=
          [enter_config_frame, build_cmd_frame LD2410_CMD_RESTART None 0],
        slept_us := 100000\<rparr>))
     = Some (- EIO)"
  by (simp add: cmd_defs uart_third_write_fails_def enter_config_frame_def exit_config_frame_def
       dev_init_def)

theorem config_operation_bracket_witness:
  "\<exists>p' u'. mmwave_ioctl (Some (dev_init 0)) (MMWAVE_IOC_ENG_MODE 1) uart_idle
             = Some (OK, Some p', u') \<and>
     uart_tx u' = [enter_config_frame, build_cmd_frame LD2410_CMD_ENG_MODE_ON None 0,
                   exit_config_frame]"
  using config_operation_bracket[of "MMWAVE_IOC_ENG_MODE 1"
      "build_cmd_frame LD2410_CMD_ENG_MODE_ON None 0" "dev_init 0" uart_idle]
  by (auto simp: write_ok_def uart_idle_def)

text \<open>
  C8, as the code has it. A sensitivity request with a gate above 8 returns \<open>-EINVAL\<close>
  and leaves the device and the UART as they were: no command is sent.
\<close>

theorem sensitivity_gate_out_of_range:
  assumes "8 < unat (gate sens)"
  shows "mmwave_ioctl (Some priv) (MMWAVE_IOC_SET_SENSITIVITY sens) u = Some (- EINVAL, Some priv, u)"
  using assms by (simp add: mmwave_ioctl_def LD2410_MAX_GATES_def)

theorem sensitivity_gate_out_of_range_witness:
  "mmwave_ioctl (Some (dev_init 0))
     (MMWAVE_IOC_SET_SENSITIVITY \<lparr>gate = 9, motion_threshold = 50, static_threshold = 50\<rparr>)
     uart_idle = Some (- EINVAL, Some (dev_init 0), uart_idle)"
  using sensitivity_gate_out_of_range[of
     "\<lparr>gate = 9, motion_threshold = 50, static_threshold = 50\<rparr>" "dev_init 0" uart_idle]
  by simp

text \<open>
  C8, as the spec states it, fails. A max-gate request with gates 9 and 200 sends its
  three frames and returns \<open>OK\<close>, and so does a sensitivity request with thresholds
  101 and 255.
\<close>

theorem invalid_argument_counterexample:
  "map_option fst (mmwave_ioctl (Some (dev_init 0))
      (MMWAVE_IOC_SET_MAXGATE \<lparr>max_motion_gate = 9, max_static_gate = 200, timeout_s = 5\<rparr>)
      uart_idle) = Some OK \<and>
   map_option (length \<circ> uart_tx \<circ> snd \<circ> snd) (mmwave_ioctl (Some (dev_init 0))
      (MMWAVE_IOC_SET_MAXGATE \<lparr>max_motion_gate = 9, max_static_gate = 200, timeout_s = 5\<rparr>)
      uart_idle) = Some 3 \<and>
   map_option fst (mmwave_ioctl (Some (dev_init 0))
      (MMWAVE_IOC_SET_SENSITIVITY \<lparr>gate = 0, motion_threshold = 101, static_threshold = 255\<rparr>)
      uart_idle) = Some OK"
  by (simp add: cmd_defs uart_idle_def dev_init_def)


section \<open>Claims about decoding constructed frames\<close>

lemma and_255: "(w :: 16 word) AND 0xFF = take_bit 8 w"
proof -
  have "(0xFF :: 16 word) = mask 8" by (simp add: mask_eq_exp_minus_1)
  then show ?thesis by (simp add: take_bit_eq_mask)
qed

lemma le16_lo8_hi8: "le16 (lo8 w) (hi8 w) = w"
  unfolding le16_def lo8_def hi8_def and_255
  by (rule bit_word_eqI) (auto simp: bit_simps dest: bit_imp_le_length)

lemmas parser_step_defs = dev_init_def mmwave_parse_byte_def parse_header_def parse_length_def
  parse_payload_def rxbuf_store_def rxbuf_load_def rx_header_def le32_def
  slide_window_def LD2410_MAX_FRAME_LEN_def LD2410_DATA_HEADER_def LD2410_CMD_HEADER_def
  LD2410_DATA_TAIL_def LD2410_CMD_TAIL_def

lemmas decode_defs = mmwave_process_data_frame_def nxsem_wait_def nxsem_post_def
  TICK_PER_SEC_def EINVAL_def OK_def LD2410_MAX_GATES_def
  zero_data_def zero_eng_data_def Let_def

lemma le16_11: "le16 (lo8 11) (hi8 11) = 11" "le16 (lo8 29) (hi8 29) = 29"
  by (simp_all add: le16_lo8_hi8)

lemma data_frame_roundtrip:
  "\<exists>d. poll_bytes ticks (dev_init bd) (build_data_frame ts md me sd se dd) = Some d \<and>
     data d = \<lparr>target_state = ts, motion_distance = md, motion_energy = me,
                static_distance = sd, static_energy = se, detection_distance = dd,
                timestamp_ms = ticks\<rparr> \<and>
     data_valid d"
  by (simp add: parser_step_defs decode_defs build_data_frame_def le16_lo8_hi8 le16_11)

lemma eng_frame_decoded_part:
  "\<exists>d. poll_bytes ticks ((dev_init bd)\<lparr>eng_mode := True\<rparr>)
          (build_eng_frame ts md me sd se dd [m0, m1, m2, m3, m4, m5, m6, m7, m8]
             [s0, s1, s2, s3, s4, s5, s6, s7, s8]) = Some d \<and>
     basic (eng_data d) = \<lparr>target_state = ts, motion_distance = md, motion_energy = me,
                static_distance = sd, static_energy = se, detection_distance = dd,
                timestamp_ms = ticks\<rparr> \<and>
     motion_gate_energy (eng_data d) = [m0, m1, m2, m3, m4, m5, m6, m7, m8] \<and>
     static_gate_energy (eng_data d) = [s0, s1, s2, s3, s4, 0, 0, 0, 0]"
  by (simp add: parser_step_defs decode_defs build_eng_frame_def le16_lo8_hi8 le16_11)

text \<open>
  C4 fails on the engineering frame. The second gate loop stops at
  \<open>(int)frame_len - 24 = 5\<close> for the 29-byte payload that \<open>build_eng_frame\<close> builds, so
  only static gates 0 to 4 are copied (\<open>eng_frame_decoded_part\<close>). With the inputs of the
  repository's test \<open>test_extract_engineering_static_gates\<close> the decoded static gate
  energies are 5, 15, 25, 35, 45, 0, 0, 0, 0, not the nine input values.
\<close>

theorem eng_static_gates_truncated:
  "map_option (static_gate_energy \<circ> eng_data)
     (poll_bytes 12345 ((dev_init 0)\<lparr>eng_mode := True\<rparr>)
        (build_eng_frame 0x02 0 0 300 50 300 [0, 0, 0, 0, 0, 0, 0, 0, 0]
           [5, 15, 25, 35, 45, 55, 65, 75, 85]))
   = Some [5, 15, 25, 35, 45, 0, 0, 0, 0]"
  by (simp add: parser_defs decode_defs build_eng_frame_def lo8_def hi8_def)

section \<open>Claims about the reporter\<close>

text \<open>
  C9 fails on a response whose status is not 200 or 201 but which holds the text "200"
  elsewhere: \<open>strstr\<close> searches the whole received text. For the 404 response with
  \<open>Content-Length: 200\<close> the post returns \<open>OK\<close> and the reporter takes the new state as
  reported.
\<close>

theorem post_succeeds_on_404:
  "ha_post_state ha_config_example (net_answers response_404) reading_motion = OK \<and>
   ha_report_iteration ha_config_example (net_answers response_404) 0xFF (Some reading_motion)
     = 0x01"
  by (simp add: ha_post_state_def ha_report_iteration_def ha_config_example_def net_answers_def
       response_404_def reading_motion_def c_string_def HA_HTTP_BUF_SIZE_def OK_def EIO_def
       EINVAL_def ENOENT_def)

lemma post_failure_keeps_prev_state:
  "ha_post_state cfg net reading \<noteq> OK \<Longrightarrow>
     ha_report_iteration cfg net prev (Some reading) = prev"
  by (simp add: ha_report_iteration_def)


section \<open>Resynchronisation: a frame after arbitrary bytes\<close>

lemma le32_bytes:
  "ucast (le32 b0 b1 b2 b3) = b0"
  "ucast (drop_bit 8 (le32 b0 b1 b2 b3)) = b1"
  "ucast (drop_bit 16 (le32 b0 b1 b2 b3)) = b2"
  "ucast (drop_bit 24 (le32 b0 b1 b2 b3)) = b3"
  unfolding le32_def
  by (rule bit_word_eqI; auto simp: bit_simps dest: bit_imp_le_length)+

lemma le32_eq_iff:
  "le32 a0 a1 a2 a3 = le32 b0 b1 b2 b3 \<longleftrightarrow> a0 = b0 \<and> a1 = b1 \<and> a2 = b2 \<and> a3 = b3"
  by (metis le32_bytes)

lemma le32_magic:
  "le32 a b c d = LD2410_DATA_HEADER \<longleftrightarrow> a = 0xF1 \<and> b = 0xF2 \<and> c = 0xF3 \<and> d = 0xF4"
  "le32 a b c d = LD2410_CMD_HEADER \<longleftrightarrow> a = 0xFA \<and> b = 0xFB \<and> c = 0xFC \<and> d = 0xFD"
  "le32 a b c d = LD2410_DATA_TAIL \<longleftrightarrow> a = 0xF5 \<and> b = 0xF6 \<and> c = 0xF7 \<and> d = 0xF8"
  "le32 a b c d = LD2410_CMD_TAIL \<longleftrightarrow> a = 0x01 \<and> b = 0x02 \<and> c = 0x03 \<and> d = 0x04"
proof -
  have h: "LD2410_DATA_HEADER = le32 0xF1 0xF2 0xF3 0xF4" "LD2410_CMD_HEADER = le32 0xFA 0xFB 0xFC 0xFD"
    "LD2410_DATA_TAIL = le32 0xF5 0xF6 0xF7 0xF8" "LD2410_CMD_TAIL = le32 0x01 0x02 0x03 0x04"
    by (simp_all add: parser_defs)
  show
    "le32 a b c d = LD2410_DATA_HEADER \<longleftrightarrow> a = 0xF1 \<and> b = 0xF2 \<and> c = 0xF3 \<and> d = 0xF4"
    "le32 a b c d = LD2410_CMD_HEADER \<longleftrightarrow> a = 0xFA \<and> b = 0xFB \<and> c = 0xFC \<and> d = 0xFD"
    "le32 a b c d = LD2410_DATA_TAIL \<longleftrightarrow> a = 0xF5 \<and> b = 0xF6 \<and> c = 0xF7 \<and> d = 0xF8"
    "le32 a b c d = LD2410_CMD_TAIL \<longleftrightarrow> a = 0x01 \<and> b = 0x02 \<and> c = 0x03 \<and> d = 0x04"
    unfolding h by (rule le32_eq_iff)+
qed

lemma feed_bytes_append:
  "feed_bytes d (xs @ ys) =
     do { (d1, n) \<leftarrow> feed_bytes d xs; (d2, m) \<leftarrow> feed_bytes d1 ys; Some (d2, n + m) }"
proof (induction xs arbitrary: d)
  case Nil
  show ?case by (cases "feed_bytes d ys") auto
next
  case (Cons x xs)
  show ?case
  proof (cases "mmwave_parse_byte d x")
    case None
    then show ?thesis by simp
  next
    case (Some a)
    obtain d1 r where a: "a = (d1, r)" by (cases a)
    show ?thesis
    proof (cases "feed_bytes d1 xs")
      case None
      then show ?thesis using Some a Cons.IH[of d1] by simp
    next
      case (Some c)
      obtain d2 n where c: "c = (d2, n)" by (cases c)
      show ?thesis
      proof (cases "feed_bytes d2 ys")
        case None
        then show ?thesis using \<open>mmwave_parse_byte d x = Some a\<close> a Some c Cons.IH[of d1] by simp
      next
        case (Some e)
        obtain d3 m where e: "e = (d3, m)" by (cases e)
        show ?thesis
          using \<open>mmwave_parse_byte d x = Some a\<close> a \<open>feed_bytes d1 xs = Some c\<close> c Some e
            Cons.IH[of d1] by simp
      qed
    qed
  qed
qed

text \<open>
  Seeking the header: whatever the window holds, the four magic bytes of either family
  bring the parser to the length field with the magic at the start of the buffer. No
  proper suffix of a magic is a prefix of one, so no earlier window matches.
\<close>

lemma header_phase:
  assumes "parser_inv d" "parse_state d = PARSE_HEADER"
  shows "\<exists>d1. feed_bytes d (frame_header fam) = Some (d1, 0) \<and> parse_state d1 = PARSE_LENGTH \<and>
           rxpos d1 = 4 \<and> length (rxbuf d1) = 64 \<and> take 4 (rxbuf d1) = frame_header fam \<and>
           frames_ok d1 = frames_ok d"
proof -
  from assms have len: "length (rxbuf d) = 64" and "unat (rxpos d) \<le> 3"
    by (simp_all add: parser_inv_def)
  then have "unat (rxpos d) = 0 \<or> unat (rxpos d) = 1 \<or> unat (rxpos d) = 2 \<or> unat (rxpos d) = 3"
    by arith
  then have pos: "rxpos d = 0 \<or> rxpos d = 1 \<or> rxpos d = 2 \<or> rxpos d = 3"
    by (auto simp: word_unat_eq_iff)
  have take4: "\<And>xs :: byte list. length xs = 64 \<Longrightarrow> take 4 xs = [xs ! 0, xs ! 1, xs ! 2, xs ! 3]"
    by (simp add: take_Suc_conv_app_nth numeral_Bit0 numeral_Bit1 eval_nat_numeral)
  from pos show ?thesis
  proof (elim disjE)
    assume "rxpos d = 0"
    then show ?thesis using assms(2) len
      by (cases fam) (simp_all add: frame_header_def mmwave_parse_byte_def parse_header_def
            rxbuf_store_def rx_header_def le32_magic slide_window_def LD2410_MAX_FRAME_LEN_def take4)
  next
    assume "rxpos d = 1"
    then show ?thesis using assms(2) len
      by (cases fam) (simp_all add: frame_header_def mmwave_parse_byte_def parse_header_def
            rxbuf_store_def rx_header_def le32_magic slide_window_def LD2410_MAX_FRAME_LEN_def take4)
  next
    assume "rxpos d = 2"
    then show ?thesis using assms(2) len
      by (cases fam) (simp_all add: frame_header_def mmwave_parse_byte_def parse_header_def
            rxbuf_store_def rx_header_def le32_magic slide_window_def LD2410_MAX_FRAME_LEN_def take4)
  next
    assume "rxpos d = 3"
    then show ?thesis using assms(2) len
      by (cases fam) (simp_all add: frame_header_def mmwave_parse_byte_def parse_header_def
            rxbuf_store_def rx_header_def le32_magic slide_window_def LD2410_MAX_FRAME_LEN_def take4)
  qed
qed

lemma wire_frame_length: "length (wire_frame fam payload) = 10 + length payload"
  by (simp add: wire_frame_def frame_header_def frame_tail_def)

lemma wire_frame_nth:
  "wire_frame fam payload ! 0 = frame_header fam ! 0"
  "wire_frame fam payload ! 1 = frame_header fam ! 1"
  "wire_frame fam payload ! Suc 0 = frame_header fam ! Suc 0"
  "wire_frame fam payload ! 2 = frame_header fam ! 2"
  "wire_frame fam payload ! 3 = frame_header fam ! 3"
  "wire_frame fam payload ! 4 = lo8 (of_nat (length payload))"
  "wire_frame fam payload ! 5 = hi8 (of_nat (length payload))"
  "wire_frame fam payload ! (6 + length payload) = frame_tail fam ! 0"
  "wire_frame fam payload ! (6 + length payload + 1) = frame_tail fam ! 1"
  "wire_frame fam payload ! (6 + length payload + 2) = frame_tail fam ! 2"
  "wire_frame fam payload ! (6 + length payload + 3) = frame_tail fam ! 3"
  by (simp_all add: wire_frame_def frame_header_def frame_tail_def nth_append)

lemma take_eq_nth:
  "take n xs = take n ys \<Longrightarrow> i < n \<Longrightarrow> xs ! i = ys ! i"
  by (metis nth_take)

lemma take_update_snoc:
  assumes "take n xs = take n F" "n < length xs" "n < length F"
  shows "take (Suc n) (xs[n := F ! n]) = take (Suc n) F"
  using assms by (simp add: take_Suc_conv_app_nth)

lemma unat_len16: "n \<le> 54 \<Longrightarrow> unat (of_nat n :: 16 word) = n"
  by (simp add: unat_of_nat)

lemma mid_frame_step_length:
  assumes m: "mid_frame F len d n" and F: "F = wire_frame fam payload"
    and len: "len = length payload" "len \<le> 54" and n: "4 \<le> n" "n < 6"
  shows "\<exists>d'. mmwave_parse_byte d (F ! n) = Some (d', 0) \<and> mid_frame F len d' (Suc n) \<and>
           frames_ok d' = frames_ok d"
proof -
  from m n have st: "parse_state d = PARSE_LENGTH" and l64: "length (rxbuf d) = 64"
    and pos: "unat (rxpos d) = n" and tk: "take n (rxbuf d) = take n F"
    by (simp_all add: mid_frame_def)
  have lF: "length F = 10 + len" using F len by (simp add: wire_frame_length)
  have tk': "take (Suc n) ((rxbuf d)[n := F ! n]) = take (Suc n) F"
    using take_update_snoc[OF tk] l64 lF n by simp
  from n have "n = 4 \<or> n = 5" by arith
  then show ?thesis
  proof
    assume n4: "n = 4"
    with pos have "rxpos d = 4" by (simp add: word_unat_eq_iff)
    then show ?thesis using st l64 tk' n4
      by (simp add: mmwave_parse_byte_def parse_length_def rxbuf_store_def
            LD2410_MAX_FRAME_LEN_def mid_frame_def)
  next
    assume n5: "n = 5"
    with pos have r5: "rxpos d = 5" by (simp add: word_unat_eq_iff)
    have b4: "rxbuf d ! 4 = F ! 4" using take_eq_nth[OF tk, of 4] n5 by simp
    have fl: "le16 (F ! 4) (F ! 5) = of_nat len"
      using F len by (simp add: wire_frame_nth le16_lo8_hi8)
    show ?thesis using st l64 tk' n5 r5 b4 fl len
      by (simp add: mmwave_parse_byte_def parse_length_def rxbuf_store_def
            LD2410_MAX_FRAME_LEN_def mid_frame_def Let_def unat_len16)
  qed
qed

lemma mid_frame_step_payload:
  assumes m: "mid_frame F len d n" and F: "F = wire_frame fam payload"
    and len: "len = length payload" "len \<le> 54" and n: "6 \<le> n" "Suc n < length F"
  shows "\<exists>d'. mmwave_parse_byte d (F ! n) = Some (d', 0) \<and> mid_frame F len d' (Suc n) \<and>
           frames_ok d' = frames_ok d"
proof -
  from m n have st: "parse_state d = PARSE_PAYLOAD" and l64: "length (rxbuf d) = 64"
    and pos: "unat (rxpos d) = n" and tk: "take n (rxbuf d) = take n F"
    and fl: "unat (frame_len d) = len"
    by (simp_all add: mid_frame_def)
  have lF: "length F = 10 + len" using F len by (simp add: wire_frame_length)
  have tk': "take (Suc n) ((rxbuf d)[n := F ! n]) = take (Suc n) F"
    using take_update_snoc[OF tk] l64 lF n len by simp
  have n63: "n < 63" using n lF len by simp
  have inc: "unat (rxpos d + 1) = Suc n" using pos n63 by (simp add: unat_inc)
  show ?thesis using st l64 tk' fl inc n lF pos n63
    by (simp add: mmwave_parse_byte_def parse_payload_def rxbuf_store_def
          LD2410_MAX_FRAME_LEN_def mid_frame_def Let_def)
qed

lemma frame_magic:
  "rx = frame_header fam \<Longrightarrow> t = frame_tail fam \<Longrightarrow>
     (le32 (rx ! 0) (rx ! 1) (rx ! 2) (rx ! 3) = LD2410_DATA_HEADER \<and>
      le32 (t ! 0) (t ! 1) (t ! 2) (t ! 3) = LD2410_DATA_TAIL) \<or>
     (le32 (rx ! 0) (rx ! 1) (rx ! 2) (rx ! 3) = LD2410_CMD_HEADER \<and>
      le32 (t ! 0) (t ! 1) (t ! 2) (t ! 3) = LD2410_CMD_TAIL)"
  by (cases fam) (simp_all add: frame_header_def frame_tail_def le32_magic)

lemma mid_frame_step_last:
  assumes m: "mid_frame F len d n" and F: "F = wire_frame fam payload"
    and len: "len = length payload" "len \<le> 54" and n: "Suc n = length F"
  shows "\<exists>d'. mmwave_parse_byte d (F ! n) = Some (d', 1) \<and> parse_state d' = PARSE_HEADER \<and>
           rxpos d' = 0 \<and> frames_ok d' = frames_ok d + 1 \<and> frame_len d' = of_nat len \<and>
           length (rxbuf d') = 64 \<and> take (length F) (rxbuf d') = F"
proof -
  have lF: "length F = 10 + len" using F len by (simp add: wire_frame_length)
  with n have n9: "n = 9 + len" by simp
  from m n9 have st: "parse_state d = PARSE_PAYLOAD" and l64: "length (rxbuf d) = 64"
    and pos: "unat (rxpos d) = n" and tk: "take n (rxbuf d) = take n F"
    and fl: "unat (frame_len d) = len"
    by (simp_all add: mid_frame_def)
  have tk': "take (Suc n) ((rxbuf d)[n := F ! n]) = take (Suc n) F"
    using take_update_snoc[OF tk] l64 lF n9 len by simp
  then have tkF: "take (length F) ((rxbuf d)[n := F ! n]) = F" using n by simp
  have n63: "n < 64" using n9 len by simp
  have inc: "unat (rxpos d + 1) = Suc n" using pos n9 len by (simp add: unat_inc)
  define buf where "buf = (rxbuf d)[n := F ! n]"
  have nth: "\<And>i. i < Suc n \<Longrightarrow> buf ! i = F ! i"
    using take_eq_nth[OF tk'] by (simp add: buf_def)
  have hdr: "buf ! 0 = frame_header fam ! 0" "buf ! 1 = frame_header fam ! 1"
    "buf ! 2 = frame_header fam ! 2" "buf ! 3 = frame_header fam ! 3"
    using nth[of 0] nth[of 1] nth[of 2] nth[of 3] n9 F by (simp_all add: wire_frame_nth)
  have tl: "buf ! (6 + len) = frame_tail fam ! 0" "buf ! (6 + len + 1) = frame_tail fam ! 1"
    "buf ! (6 + len + 2) = frame_tail fam ! 2" "buf ! (6 + len + 3) = frame_tail fam ! 3"
    using nth[of "6 + len"] nth[of "6 + len + 1"] nth[of "6 + len + 2"] nth[of "6 + len + 3"]
      n9 F len(1) wire_frame_nth(8-11)[of fam payload] by simp_all
  have to: "unat (6 + frame_len d) = 6 + len" using fl len by (simp add: unat_tail_off)
  have flw: "frame_len d = of_nat len" using fl by (metis of_nat_unat ucast_id)
  have l64': "length buf = 64" using l64 by (simp add: buf_def)
  have store: "rxbuf_store d (unat (rxpos d)) (F ! n) = Some (d\<lparr>rxbuf := buf\<rparr>)"
    using pos n63 by (simp add: rxbuf_store_def buf_def LD2410_MAX_FRAME_LEN_def)
  have tkF': "take (length F) buf = F" using tkF by (simp add: buf_def)
  have cond: "6 + unat (frame_len d) + 4 \<le> unat (rxpos d + 1)"
    using inc fl n9 by simp
  have res: "parse_payload d (F ! n) =
      Some (d\<lparr>rxbuf := buf, rxpos := 0, parse_state := PARSE_HEADER,
               frames_ok := frames_ok d + 1\<rparr>, 1)"
  proof (cases fam)
    case True
    from hdr tl True have b: "buf ! 0 = 0xFA" "buf ! 1 = 0xFB" "buf ! 2 = 0xFC" "buf ! 3 = 0xFD"
      "buf ! (6 + len) = 0x01" "buf ! (6 + len + 1) = 0x02" "buf ! (6 + len + 2) = 0x03"
      "buf ! (6 + len + 3) = 0x04"
      by (simp_all add: frame_header_def frame_tail_def)
    show ?thesis using cond to b len(2)
      by (simp add: parse_payload_def store rxbuf_load_def LD2410_MAX_FRAME_LEN_def
            rx_header_def Let_def le32_magic)
  next
    case False
    from hdr tl False have b: "buf ! 0 = 0xF1" "buf ! 1 = 0xF2" "buf ! 2 = 0xF3" "buf ! 3 = 0xF4"
      "buf ! (6 + len) = 0xF5" "buf ! (6 + len + 1) = 0xF6" "buf ! (6 + len + 2) = 0xF7"
      "buf ! (6 + len + 3) = 0xF8"
      by (simp_all add: frame_header_def frame_tail_def)
    show ?thesis using cond to b len(2)
      by (simp add: parse_payload_def store rxbuf_load_def LD2410_MAX_FRAME_LEN_def
            rx_header_def Let_def le32_magic)
  qed
  show ?thesis using st l64' tkF' flw
    by (simp add: mmwave_parse_byte_def res)
qed

lemma feed_to_last:
  assumes F: "F = wire_frame fam payload" and len: "len = length payload" "len \<le> 54"
  shows "mid_frame F len d n \<Longrightarrow> 4 \<le> n \<Longrightarrow> n < length F \<Longrightarrow>
           \<exists>d9. feed_bytes d (drop n (butlast F)) = Some (d9, 0) \<and>
                 mid_frame F len d9 (length F - 1) \<and> frames_ok d9 = frames_ok d"
proof (induction "length F - 1 - n" arbitrary: d n)
  case 0
  then have "n = length F - 1" by simp
  with 0 show ?case by simp
next
  case (Suc k)
  then have n: "Suc n < length F" by simp
  have "\<exists>d1. mmwave_parse_byte d (F ! n) = Some (d1, 0) \<and> mid_frame F len d1 (Suc n) \<and>
          frames_ok d1 = frames_ok d"
  proof (cases "n < 6")
    case True
    then show ?thesis using mid_frame_step_length[OF Suc.prems(1) F len Suc.prems(2)] by simp
  next
    case False
    then show ?thesis using mid_frame_step_payload[OF Suc.prems(1) F len _ n] by simp
  qed
  then obtain d1 where s: "mmwave_parse_byte d (F ! n) = Some (d1, 0)"
    "mid_frame F len d1 (Suc n)" "frames_ok d1 = frames_ok d" by blast
  have k: "k = length F - 1 - Suc n" using Suc.hyps(2) by simp
  from Suc.hyps(1)[OF k s(2)] Suc.prems(2) n obtain d9 where
    r: "feed_bytes d1 (drop (Suc n) (butlast F)) = Some (d9, 0)"
       "mid_frame F len d9 (length F - 1)" "frames_ok d9 = frames_ok d1" by auto
  have nb: "n < length (butlast F)" using n by simp
  have "drop n (butlast F) = F ! n # drop (Suc n) (butlast F)"
    using Cons_nth_drop_Suc[OF nb] nth_butlast[OF nb] by simp
  then show ?case using s r by simp
qed

lemma feed_frame:
  assumes inv: "parser_inv d" and st: "parse_state d = PARSE_HEADER"
    and len: "length payload \<le> 54"
  shows "\<exists>d9 d'. feed_bytes d (butlast (wire_frame fam payload)) = Some (d9, 0) \<and>
           mmwave_parse_byte d9 (last (wire_frame fam payload)) = Some (d', 1) \<and>
           parse_state d' = PARSE_HEADER \<and> rxpos d' = 0 \<and>
           frames_ok d' = frames_ok d + 1 \<and> frame_len d' = of_nat (length payload) \<and>
           length (rxbuf d') = 64 \<and>
           take (length (wire_frame fam payload)) (rxbuf d') = wire_frame fam payload"
proof -
  define F where "F = wire_frame fam payload"
  have lF: "length F = 10 + length payload" by (simp add: F_def wire_frame_length)
  have t4: "take 4 F = frame_header fam"
    by (simp add: F_def wire_frame_def frame_header_def)
  from header_phase[OF inv st, of fam] obtain d1 where
    h: "feed_bytes d (frame_header fam) = Some (d1, 0)" "parse_state d1 = PARSE_LENGTH"
       "rxpos d1 = 4" "length (rxbuf d1) = 64" "take 4 (rxbuf d1) = frame_header fam"
       "frames_ok d1 = frames_ok d" by blast
  have m4: "mid_frame F (length payload) d1 4"
    using h t4 by (simp add: mid_frame_def)
  from feed_to_last[OF F_def refl len m4] lF obtain d9 where
    r: "feed_bytes d1 (drop 4 (butlast F)) = Some (d9, 0)"
       "mid_frame F (length payload) d9 (length F - 1)" "frames_ok d9 = frames_ok d1" by auto
  have "Suc (length F - 1) = length F" using lF by simp
  from mid_frame_step_last[OF r(2) F_def refl len this] obtain d' where
    l: "mmwave_parse_byte d9 (F ! (length F - 1)) = Some (d', 1)" "parse_state d' = PARSE_HEADER"
       "rxpos d' = 0" "frames_ok d' = frames_ok d9 + 1" "frame_len d' = of_nat (length payload)"
       "length (rxbuf d') = 64" "take (length F) (rxbuf d') = F" by blast
  have ne: "F \<noteq> []" using lF by auto
  have lastF: "last F = F ! (length F - 1)" using ne by (simp add: last_conv_nth)
  have "take 4 (butlast F) = frame_header fam"
    using t4 lF by (simp add: take_butlast)
  then have "butlast F = frame_header fam @ drop 4 (butlast F)"
    by (metis append_take_drop_id)
  then have "feed_bytes d (butlast F) = Some (d9, 0)"
    using feed_bytes_append[of d "frame_header fam" "drop 4 (butlast F)"] h(1) r(1) by simp
  then show ?thesis using l r(3) h(6) lastF unfolding F_def[symmetric] by auto
qed

text \<open>
  C6, as the code has it. Let \<open>F\<close> be a frame of either family with a payload of at
  most 54 bytes, and \<open>P\<close> any bytes after which the fresh parser is seeking a header
  (\<open>PARSE_HEADER\<close>), having returned 1 \<open>k\<close> times. Then feeding \<open>P\<close> and \<open>F\<close> completes
  \<open>F\<close>: no call before the last byte of \<open>F\<close> returns 1 for it, the call on the last byte
  returns 1 with \<open>F\<close> at the start of the buffer and its payload length in \<open>frame_len\<close>,
  and the run has returned 1 \<open>k + 1\<close> times.
\<close>

theorem frame_after_prefix:
  assumes len: "length payload \<le> 54"
    and P: "feed_bytes (dev_init bd) P = Some (dP, k)"
    and st: "parse_state dP = PARSE_HEADER"
  shows "\<exists>d9 d'. feed_bytes (dev_init bd) (P @ butlast (wire_frame fam payload)) = Some (d9, k) \<and>
           mmwave_parse_byte d9 (last (wire_frame fam payload)) = Some (d', 1) \<and>
           take (length (wire_frame fam payload)) (rxbuf d') = wire_frame fam payload \<and>
           frame_len d' = of_nat (length payload) \<and>
           feed_bytes (dev_init bd) (P @ wire_frame fam payload) = Some (d', k + 1)"
proof -
  define F where "F = wire_frame fam payload"
  from feed_bytes_inv[OF parser_inv_init, of bd P] P have inv: "parser_inv dP" by auto
  from feed_frame[OF inv st len, of fam] obtain d9 d' where
    f: "feed_bytes dP (butlast F) = Some (d9, 0)"
       "mmwave_parse_byte d9 (last F) = Some (d', 1)"
       "frame_len d' = of_nat (length payload)"
       "take (length F) (rxbuf d') = F" unfolding F_def by blast
  have ne: "F \<noteq> []" by (simp add: F_def wire_frame_def)
  have a: "feed_bytes (dev_init bd) (P @ butlast F) = Some (d9, k)"
    using feed_bytes_append[of "dev_init bd" P "butlast F"] P f(1) by simp
  have "P @ F = (P @ butlast F) @ [last F]" using ne by simp
  then have "feed_bytes (dev_init bd) (P @ F) = Some (d', k + 1)"
    using feed_bytes_append[of "dev_init bd" "P @ butlast F" "[last F]"] a f(2) by simp
  with a f show ?thesis unfolding F_def by blast
qed

theorem frame_after_prefix_witness:
  "\<exists>d'. feed_bytes (dev_init 0)
           ([0xDE, 0xAD, 0xBE, 0xEF, 0x00, 0x11, 0x22, 0x33] @
            wire_frame False [0x02, 0xAA, 0x01, 0x96, 0x00, 0x50, 0x00, 0x00, 0x00, 0x96, 0x00])
         = Some (d', 1)"
proof -
  have "\<exists>dP. feed_bytes (dev_init 0) [0xDE, 0xAD, 0xBE, 0xEF, 0x00, 0x11, 0x22, 0x33]
               = Some (dP, 0) \<and> parse_state dP = PARSE_HEADER"
    by (simp add: parser_defs)
  then obtain dP where
    p: "feed_bytes (dev_init 0) [0xDE, 0xAD, 0xBE, 0xEF, 0x00, 0x11, 0x22, 0x33] = Some (dP, 0)"
       "parse_state dP = PARSE_HEADER" by blast
  have l: "length [0x02, 0xAA, 0x01, 0x96, 0x00, 0x50, 0x00, 0x00, 0x00, 0x96, 0x00 :: byte] \<le> 54"
    by simp
  from frame_after_prefix[OF l p, of False] show ?thesis by auto
qed

text \<open>
  C6, as the spec states it, fails. The data frame of the tests is completed when fed
  alone, but not after the four bytes F1 F2 F3 F4: they leave the parser in the length
  field, the first two bytes of the frame are read as the length 0xF2F1, and the rest of
  the frame holds no header.
\<close>

theorem frame_after_prefix_counterexample:
  "map_option snd (feed_bytes (dev_init 0)
      (build_data_frame 0x01 150 80 200 40 150)) = Some 1 \<and>
   map_option snd (feed_bytes (dev_init 0)
      ([0xF1, 0xF2, 0xF3, 0xF4] @ build_data_frame 0x01 150 80 200 40 150)) = Some 0"
  by (simp add: parser_defs build_data_frame_def lo8_def hi8_def)

text \<open>The constructors of the frame builder build frames of this shape.\<close>

lemma build_data_frame_wire:
  "build_data_frame ts md me sd se dd =
     wire_frame False [0x02, 0xAA, ts, lo8 md, hi8 md, me, lo8 sd, hi8 sd, se, lo8 dd, hi8 dd]"
  by (simp add: build_data_frame_def wire_frame_def frame_header_def frame_tail_def)

lemma build_eng_frame_wire:
  "length mg = 9 \<Longrightarrow> length sg = 9 \<Longrightarrow>
   build_eng_frame ts md me sd se dd mg sg =
     wire_frame False ([0x01, 0xAA, ts, lo8 md, hi8 md, me, lo8 sd, hi8 sd, se, lo8 dd, hi8 dd]
                       @ mg @ sg)"
  by (simp add: build_eng_frame_def wire_frame_def frame_header_def frame_tail_def)

lemma build_cmd_frame_wire:
  assumes "unat datalen = length bytes"
  shows "build_cmd_frame cmd (Some bytes) datalen = wire_frame True (lo8 cmd # hi8 cmd # bytes)"
proof -
  have "datalen = of_nat (length bytes)" using assms by (metis of_nat_unat ucast_id)
  then show ?thesis using assms
    by (auto simp: build_cmd_frame_def wire_frame_def frame_header_def frame_tail_def Let_def)
qed

end
